theory Spec2Isabelle
  imports Complex_Main "HOL-Library.Word" "HOL-Library.Sublist"
begin

section \<open>Shared values: JSON, thrown values, responses\<close>

text \<open>
  The JSON values that the route handlers of this site build and that the client pages
  read back: \<open>null\<close>, booleans, strings and objects (an object keeps its properties in
  insertion order). Numbers and arrays occur in no handler and are left out.
\<close>

datatype json =
    JNull
  | JBool bool
  | JString string
  | JObject "(string \<times> json) list"

text \<open>
  Reading a property of a parsed JSON value, as \<open>data.valid\<close> or a destructuring
  pattern does: \<open>None\<close> stands for \<open>undefined\<close>. Booleans and strings have none of the
  property names used in this site. (Reading a property of \<open>null\<close> throws; callers
  rule that case out before they ask.)
\<close>

fun get_property :: "json \<Rightarrow> string \<Rightarrow> json option" where
  "get_property (JObject props) name = map_of props name"
| "get_property _ name = None"

text \<open>
  JavaScript's conversion to string of a value that is either \<open>undefined\<close> (\<open>None\<close>)
  or a parsed JSON value, as string concatenation and \<open>fetch\<close> apply it.
\<close>

fun to_string :: "json option \<Rightarrow> string" where
  "to_string None = ''undefined''"
| "to_string (Some JNull) = ''null''"
| "to_string (Some (JBool b)) = (if b then ''true'' else ''false'')"
| "to_string (Some (JString s)) = s"
| "to_string (Some (JObject props)) = ''[object Object]''"

text \<open>
  A thrown value: an \<open>Error\<close> object with its message, or a value that has no
  \<open>message\<close> (for which \<open>err?.message ?? 'unknown'\<close> falls back).
\<close>

datatype js_exception = JsError string | Opaque

fun message_or_unknown :: "js_exception \<Rightarrow> string" where
  "message_or_unknown (JsError m) = m"
| "message_or_unknown Opaque = ''unknown''"

text \<open>
  A \<open>NextResponse\<close> as a handler constructs it: the body, the status (200 unless the
  handler sets one) and the headers the handler sets itself.
\<close>

datatype response_body =
    JsonBody json
  | TextBody string
  | BinaryBody "8 word list"

record next_response =
  body :: response_body
  status :: nat
  headers :: "(string \<times> string) list"

definition NextResponse_json :: "json \<Rightarrow> next_response" where
  "NextResponse_json data = \<lparr>body = JsonBody data, status = 200, headers = []\<rparr>"

section \<open>Verification lookup: \<open>GET /api/verify\<close>\<close>

text \<open>
  The request carries the decoded query parameters in order;
  \<open>searchParams.get\<close> returns the first value of a name, or \<open>null\<close> (\<open>None\<close>).
\<close>

record next_request =
  searchParams :: "(string \<times> string) list"

definition searchParams_get :: "next_request \<Rightarrow> string \<Rightarrow> string option" where
  "searchParams_get req name = map_of (searchParams req) name"

definition verify_GET :: "next_request \<Rightarrow> next_response" where
  "verify_GET req =
     (let code = searchParams_get req ''code'' in
      if code = Some ''VALID123''
      then NextResponse_json (JObject [(''valid'', JBool True), (''issuedAt'', JString ''2024-01-01'')])
      else NextResponse_json (JObject [(''valid'', JBool False)]))"

section \<open>Upload-URL issuer: \<open>POST /api/upload\<close>\<close>

record process_env =
  AWS_REGION :: "string option"
  AWS_BUCKET_NAME :: "string option"

record s3_client =
  region :: "string option"

record put_object_command =
  Bucket :: "string option"
  Key :: string
  ContentType :: string

record presign_options =
  expiresIn :: nat

text \<open>
  \<open>getSignedUrl\<close> belongs to the storage SDK: it is a parameter of the model, and it
  may reject. Each call the handler makes to it is recorded, so that what the handler
  asks of the provider can be stated.
\<close>

type_synonym presigner =
  "s3_client \<Rightarrow> put_object_command \<Rightarrow> presign_options \<Rightarrow> js_exception + string"

record presign_call =
  call_client :: s3_client
  call_command :: put_object_command
  call_options :: presign_options

definition s3 :: "process_env \<Rightarrow> s3_client" where
  "s3 env = \<lparr>region = AWS_REGION env\<rparr>"

text \<open>
  \<open>randomUUID\<close> is the string that \<open>crypto.randomUUID()\<close> returned in this invocation.
  A rejected signing promise leaves the handler as an exception (\<open>Inl\<close>).
\<close>

definition upload_POST ::
  "process_env \<Rightarrow> string \<Rightarrow> presigner \<Rightarrow> presign_call list \<times> (js_exception + next_response)" where
  "upload_POST env randomUUID getSignedUrl =
     (let key = ''uploads/'' @ randomUUID;
          command = \<lparr>Bucket = AWS_BUCKET_NAME env, Key = key,
                     ContentType = ''application/octet-stream''\<rparr>;
          opts = \<lparr>expiresIn = 60\<rparr>
      in ([\<lparr>call_client = s3 env, call_command = command, call_options = opts\<rparr>],
          (case getSignedUrl (s3 env) command opts of
             Inl err \<Rightarrow> Inl err
           | Inr uploadUrl \<Rightarrow> Inr (NextResponse_json (JObject [(''uploadUrl'', JString uploadUrl)])))))"

section \<open>Report generator: \<open>GET /api/report\<close>\<close>

text \<open>
  JavaScript numbers are IEEE doubles. The handler only builds arithmetic expressions
  over literals and over numbers the PDF library returned, and hands them back to the
  library; the model keeps those expressions as written and does not evaluate them.
\<close>

datatype js_number =
    Lit rat
  | Sub js_number js_number
  | Mul js_number js_number
  | Div js_number js_number

datatype standard_fonts = Helvetica

record 'font draw_text_options =
  x :: js_number
  y :: js_number
  size :: js_number
  font :: 'font
  maxWidth :: "js_number option"
  lineHeight :: "js_number option"

text \<open>
  The PDF library is a parameter of the model. \<open>'doc\<close> is the state of the document
  under construction (adding a page, embedding a font and drawing text change it),
  \<open>'page\<close> and \<open>'font\<close> are the handles the library returns. Every call may throw.
\<close>

record ('doc, 'page, 'font) pdf_lib =
  PDFDocument_create :: "js_exception + 'doc"
  addPage :: "'doc \<Rightarrow> js_number \<times> js_number \<Rightarrow> js_exception + 'page \<times> 'doc"
  getSize :: "'doc \<Rightarrow> 'page \<Rightarrow> js_exception + js_number \<times> js_number"
  embedFont :: "'doc \<Rightarrow> standard_fonts \<Rightarrow> js_exception + 'font \<times> 'doc"
  widthOfTextAtSize :: "'doc \<Rightarrow> 'font \<Rightarrow> string \<Rightarrow> js_number \<Rightarrow> js_exception + js_number"
  drawText :: "'doc \<Rightarrow> 'page \<Rightarrow> string \<Rightarrow> 'font draw_text_options \<Rightarrow> js_exception + 'doc"
  save :: "'doc \<Rightarrow> js_exception + 8 word list"

text \<open>Sequencing of calls that may throw: the first exception ends the block.\<close>

fun and_then :: "'e + 'a \<Rightarrow> ('a \<Rightarrow> 'e + 'b) \<Rightarrow> 'e + 'b" where
  "and_then (Inl e) f = Inl e"
| "and_then (Inr a) f = f a"

text \<open>
  \<open>String.prototype.split\<close> with a string separator: the pieces between the
  occurrences of the separator, found from the left; an empty separator splits into
  single characters.
\<close>

function split_from :: "string \<Rightarrow> string \<Rightarrow> string \<Rightarrow> string list" where
  "split_from sep piece [] = [rev piece]"
| "split_from sep piece (c # cs) =
     (if sep \<noteq> [] \<and> prefix sep (c # cs)
      then rev piece # split_from sep [] (drop (length sep) (c # cs))
      else split_from sep (c # piece) cs)"
  by pat_completeness auto
termination
  by (relation "measure (\<lambda>(sep, piece, s). length s)") auto

definition split :: "string \<Rightarrow> string \<Rightarrow> string list" where
  "split s sep = (if sep = [] then map (\<lambda>c. [c]) s else split_from sep [] s)"

text \<open>
  The source writes \<open>'\\n'\<close> inside single-quoted literals: a backslash followed by
  the letter n, both in the body text and in the separator.
\<close>

definition backslash_n :: string where
  "backslash_n = [CHR 0x5C, CHR ''n'']"

definition title :: string where
  "title = ''Sample Autograph Verification Report''"

definition report_body :: string where
  "report_body =
     ''This sample report illustrates the format of your certificate.'' @ backslash_n @ backslash_n @
     ''Your authentic autograph will be thoroughly analyzed by our team of experts using forensic techniques. The report includes details about ink consistency, paper age, provenance, and comparative signature analysis.'' @ backslash_n @ backslash_n @
     ''Each report is digitally signed and assigned a unique verification code. Third parties can confirm authenticity using our verification page.''"

definition titleSize :: js_number where
  "titleSize = Lit 24"

definition fontSize :: js_number where
  "fontSize = Lit 12"

text \<open>The \<open>for\<close> loop over the lines: each line is drawn at \<open>y\<close>, then \<open>y\<close> moves down.\<close>

fun draw_lines ::
  "('doc, 'page, 'font) pdf_lib \<Rightarrow> 'page \<Rightarrow> 'font \<Rightarrow> js_number \<Rightarrow> string list \<Rightarrow>
   js_number \<times> 'doc \<Rightarrow> js_exception + js_number \<times> 'doc" where
  "draw_lines lib page fnt width [] (y0, doc) = Inr (y0, doc)"
| "draw_lines lib page fnt width (line # rest) (y0, doc) =
     and_then
       (drawText lib doc page line
          \<lparr>x = Lit 50, y = y0, size = fontSize, font = fnt,
           maxWidth = Some (Sub width (Lit 100)),
           lineHeight = Some (Mul fontSize (Lit (14 / 10)))\<rparr>)
       (\<lambda>doc'. draw_lines lib page fnt width rest (Sub y0 (Mul fontSize (Lit (14 / 10))), doc'))"

text \<open>The body of the \<open>try\<close> block up to \<open>pdfDoc.save()\<close>.\<close>

definition report_try :: "('doc, 'page, 'font) pdf_lib \<Rightarrow> js_exception + 8 word list" where
  "report_try lib =
     and_then (PDFDocument_create lib) (\<lambda>pdfDoc.
     and_then (addPage lib pdfDoc (Lit 612, Lit 792)) (\<lambda>(page, pdfDoc).
     and_then (getSize lib pdfDoc page) (\<lambda>(width, height).
     and_then (embedFont lib pdfDoc Helvetica) (\<lambda>(fnt, pdfDoc).
     and_then (widthOfTextAtSize lib pdfDoc fnt title titleSize) (\<lambda>titleWidth.
     and_then (drawText lib pdfDoc page title
                 \<lparr>x = Div (Sub width titleWidth) (Lit 2), y = Sub height (Lit 80),
                  size = titleSize, font = fnt, maxWidth = None, lineHeight = None\<rparr>) (\<lambda>pdfDoc.
     and_then (draw_lines lib page fnt width (split report_body backslash_n)
                 (Sub height (Lit 130), pdfDoc)) (\<lambda>(y_end, pdfDoc).
     save lib pdfDoc)))))))"

definition pdf_response :: "8 word list \<Rightarrow> next_response" where
  \<open>pdf_response pdfBytes =
     \<lparr>body = BinaryBody pdfBytes, status = 200,
      headers = [(''Content-Type'', ''application/pdf''),
                 (''Content-Disposition'', ''attachment; filename="sample-report.pdf"'')]\<rparr>\<close>

definition failure_response :: next_response where
  "failure_response = \<lparr>body = TextBody ''Failed to generate report'', status = 500, headers = []\<rparr>"

text \<open>
  The handler: the \<open>catch\<close> branch writes the exception to the console and answers
  with the text response. The result is what was written to \<open>console.error\<close> and the
  response.
\<close>

definition report_GET :: "('doc, 'page, 'font) pdf_lib \<Rightarrow> js_exception list \<times> next_response" where
  "report_GET lib =
     (case report_try lib of
        Inr pdfBytes \<Rightarrow> ([], pdf_response pdfBytes)
      | Inl error \<Rightarrow> ([error], failure_response))"

section \<open>Client-side uploader: \<open>handleUpload\<close> of the upload page\<close>

record js_file =
  file_name :: string
  file_type :: string
  file_bytes :: "8 word list"

record fetch_request =
  url :: string
  req_method :: string
  req_body :: "js_file option"
  req_headers :: "(string \<times> string) list"

text \<open>
  What the page reads of a fetched response: \<open>res.ok\<close> and the result of
  \<open>res.json()\<close>, which throws when the body is not JSON.
\<close>

record fetch_response =
  ok :: bool
  res_json :: "js_exception + json"

datatype fetch_result = Rejected js_exception | Resolved fetch_response

text \<open>
  The browser is a parameter: how the network answers each request, and the
  \<open>TypeError\<close> the engine throws when a pattern destructures \<open>null\<close>.
\<close>

record browser =
  fetch :: "fetch_request \<Rightarrow> fetch_result"
  destructure_null :: js_exception

record upload_run =
  statuses :: "string list"
  requests :: "fetch_request list"
  thrown :: "js_exception option"

text \<open>The character U+2026 of the two progress messages, in UTF-8.\<close>

definition ellipsis :: string where
  "ellipsis = [CHR 0xE2, CHR 0x80, CHR 0xA6]"

text \<open>\<open>file.type || 'application/octet-stream'\<close>: the empty string is falsy.\<close>

definition put_content_type :: "js_file \<Rightarrow> string" where
  "put_content_type f = (if file_type f = [] then ''application/octet-stream'' else file_type f)"

definition issuer_request :: fetch_request where
  "issuer_request = \<lparr>url = ''/api/upload'', req_method = ''POST'', req_body = None, req_headers = []\<rparr>"

definition put_request :: "json option \<Rightarrow> js_file \<Rightarrow> fetch_request" where
  "put_request uploadUrl f =
     \<lparr>url = to_string uploadUrl, req_method = ''PUT'', req_body = Some f,
      req_headers = [(''Content-Type'', put_content_type f)]\<rparr>"

text \<open>\<open>const { uploadUrl, key } = await res.json()\<close> on the parsed value.\<close>

definition destructure_uploadUrl_key ::
  "browser \<Rightarrow> json \<Rightarrow> js_exception + json option \<times> json option" where
  "destructure_uploadUrl_key br data =
     (if data = JNull then Inl (destructure_null br)
      else Inr (get_property data ''uploadUrl'', get_property data ''key''))"

text \<open>
  The \<open>try\<close> block of \<open>handleUpload\<close> for a selected file: the status messages set,
  the requests sent, and the exception that ended the block, if any.
\<close>

definition upload_try :: "browser \<Rightarrow> js_file \<Rightarrow> upload_run" where
  "upload_try br f =
     (case fetch br issuer_request of
        Rejected err \<Rightarrow> \<lparr>statuses = [], requests = [issuer_request], thrown = Some err\<rparr>
      | Resolved res \<Rightarrow>
          if \<not> ok res
          then \<lparr>statuses = [], requests = [issuer_request],
                thrown = Some (JsError ''Failed to get upload URL'')\<rparr>
          else
            (case and_then (res_json res) (destructure_uploadUrl_key br) of
               Inl err \<Rightarrow> \<lparr>statuses = [], requests = [issuer_request], thrown = Some err\<rparr>
             | Inr (uploadUrl, key) \<Rightarrow>
                 (let s1 = [''Uploading to secure storage'' @ ellipsis];
                      put = put_request uploadUrl f;
                      sent = [issuer_request, put]
                  in case fetch br put of
                       Rejected err \<Rightarrow> \<lparr>statuses = s1, requests = sent, thrown = Some err\<rparr>
                     | Resolved uploadRes \<Rightarrow>
                         if \<not> ok uploadRes
                         then \<lparr>statuses = s1, requests = sent,
                               thrown = Some (JsError ''Upload failed'')\<rparr>
                         else \<lparr>statuses = s1 @ [''Upload complete! Your file key is '' @ to_string key],
                               requests = sent, thrown = None\<rparr>)))"

text \<open>
  \<open>handleUpload\<close>: nothing happens without a file; otherwise the first status is set,
  the \<open>try\<close> block runs, and the \<open>catch\<close> branch reports what was thrown, so that no
  exception leaves the handler.
\<close>

definition handleUpload :: "browser \<Rightarrow> js_file option \<Rightarrow> upload_run" where
  "handleUpload br selected =
     (case selected of
        None \<Rightarrow> \<lparr>statuses = [], requests = [], thrown = None\<rparr>
      | Some f \<Rightarrow>
          (let run = upload_try br f;
               s0 = [''Generating upload URL'' @ ellipsis]
           in case thrown run of
                None \<Rightarrow> run\<lparr>statuses := s0 @ statuses run\<rparr>
              | Some err \<Rightarrow>
                  run\<lparr>statuses := s0 @ statuses run @ [''Error: '' @ message_or_unknown err],
                      thrown := None\<rparr>))"

section \<open>Example inputs\<close>

definition valid_request :: next_request where
  "valid_request = \<lparr>searchParams = [(''code'', ''VALID123'')]\<rparr>"

definition valid_request_extra :: next_request where
  "valid_request_extra = \<lparr>searchParams = [(''lang'', ''en''), (''code'', ''VALID123''), (''code'', ''other'')]\<rparr>"

definition lowercase_request :: next_request where
  "lowercase_request = \<lparr>searchParams = [(''code'', ''valid123'')]\<rparr>"

definition no_code_request :: next_request where
  "no_code_request = \<lparr>searchParams = [(''lang'', ''en'')]\<rparr>"

definition demo_env :: process_env where
  "demo_env = \<lparr>AWS_REGION = Some ''us-east-1'', AWS_BUCKET_NAME = Some ''autographs''\<rparr>"

definition other_env :: process_env where
  "other_env = \<lparr>AWS_REGION = None, AWS_BUCKET_NAME = None\<rparr>"

text \<open>A signer that answers with a URL naming the bucket's key and the expiry it was asked for.\<close>

definition demo_signer :: presigner where
  "demo_signer client command opts =
     Inr (''https://s3.example/'' @ Key command @ (if expiresIn opts = 60 then ''?X-Amz-Expires=60'' else ''?X-Amz-Expires=other''))"

definition failing_signer :: presigner where
  "failing_signer client command opts = Inl (JsError ''CredentialsProviderError'')"

definition uuid_a :: string where
  "uuid_a = ''3b241101-e2bb-4255-8caf-4136c566a962''"

definition uuid_b :: string where
  "uuid_b = ''9f1c6a1e-7d0c-4a0e-b3c5-5d1d7a6b2f10''"

definition png_file :: js_file where
  "png_file = \<lparr>file_name = ''signature.png'', file_type = ''image/png'',
               file_bytes = [0x89, 0x50, 0x4E, 0x47]\<rparr>"

definition untyped_file :: js_file where
  "untyped_file = \<lparr>file_name = ''scan.xyz'', file_type = [], file_bytes = [1, 2, 3]\<rparr>"

text \<open>
  A browser whose network forwards the issuer request to \<open>upload_POST\<close> (an exception in
  the handler reaches the page as a response that is not ok) and whose storage
  acknowledges every write.
\<close>

definition demo_browser :: browser where
  "demo_browser =
     \<lparr>fetch = (\<lambda>r.
        if r = issuer_request
        then (case snd (upload_POST demo_env uuid_a demo_signer) of
                Inl err \<Rightarrow> Resolved \<lparr>ok = False, res_json = Inl (JsError ''Unexpected token'')\<rparr>
              | Inr resp \<Rightarrow>
                  Resolved \<lparr>ok = True,
                            res_json = (case body resp of JsonBody data \<Rightarrow> Inr data
                                        | _ \<Rightarrow> Inl (JsError ''Unexpected token''))\<rparr>)
        else Resolved \<lparr>ok = True, res_json = Inl (JsError ''Unexpected end of JSON input'')\<rparr>),
      destructure_null = JsError ''Cannot destructure property of null''\<rparr>"

definition demo_url :: string where
  "demo_url = ''https://s3.example/uploads/3b241101-e2bb-4255-8caf-4136c566a962?X-Amz-Expires=60''"

definition demo_upload_response :: next_response where
  "demo_upload_response =
     \<lparr>body = JsonBody (JObject [(''uploadUrl'', JString demo_url)]), status = 200, headers = []\<rparr>"

definition toy_pdf_lib :: "(string list, unit, unit) pdf_lib" where
  "toy_pdf_lib =
     \<lparr>PDFDocument_create = Inr [],
      addPage = (\<lambda>doc pageSize. Inr ((), doc)),
      getSize = (\<lambda>doc page. Inr (Lit 612, Lit 792)),
      embedFont = (\<lambda>doc name. Inr ((), doc)),
      widthOfTextAtSize = (\<lambda>doc fnt text sz. Inr (Lit 400)),
      drawText = (\<lambda>doc page text opts. Inr (doc @ [text])),
      save = (\<lambda>doc. Inr [0x25, 0x50, 0x44, 0x46, of_nat (length doc)])\<rparr>"

definition toy_pdf_bytes :: "8 word list" where
  "toy_pdf_bytes = [0x25, 0x50, 0x44, 0x46, 6]"


text \<open>
  A library that writes the clock second at which it runs into the saved document, as
  a PDF writer that stamps creation and modification dates does; apart from \<open>save\<close> it
  is \<open>toy_pdf_lib\<close>.
\<close>

definition dated_pdf_lib :: "nat \<Rightarrow> (string list, unit, unit) pdf_lib" where
  "dated_pdf_lib now =
     toy_pdf_lib\<lparr>save := (\<lambda>doc. Inr [0x25, 0x50, 0x44, 0x46, of_nat (length doc), of_nat now])\<rparr>"

section \<open>Properties of the verification lookup\<close>

text \<open>
  C1. Whenever the \<open>code\<close> parameter of the request is exactly \<open>VALID123\<close>, the lookup
  answers \<open>{valid: true, issuedAt: "2024-01-01"}\<close>; any two such requests get the same
  answer.
\<close>

theorem verify_accepts_valid_code:
  assumes "searchParams_get req ''code'' = Some ''VALID123''"
    and "searchParams_get req' ''code'' = Some ''VALID123''"
  shows "verify_GET req =
           \<lparr>body = JsonBody (JObject [(''valid'', JBool True), (''issuedAt'', JString ''2024-01-01'')]),
            status = 200, headers = []\<rparr>
         \<and> verify_GET req' = verify_GET req"
  using assms by (simp add: verify_GET_def NextResponse_json_def)

theorem verify_accepts_valid_code_witness:
  "searchParams_get valid_request ''code'' = Some ''VALID123''
   \<and> searchParams_get valid_request_extra ''code'' = Some ''VALID123''
   \<and> verify_GET valid_request =
        \<lparr>body = JsonBody (JObject [(''valid'', JBool True), (''issuedAt'', JString ''2024-01-01'')]),
         status = 200, headers = []\<rparr>
   \<and> verify_GET valid_request_extra = verify_GET valid_request"
proof -
  have h1: "searchParams_get valid_request ''code'' = Some ''VALID123''"
    by (simp add: searchParams_get_def valid_request_def)
  have h2: "searchParams_get valid_request_extra ''code'' = Some ''VALID123''"
    by (simp add: searchParams_get_def valid_request_extra_def)
  from verify_accepts_valid_code [OF h1 h2] h1 h2 show ?thesis
    by (intro conjI) (erule conjunct1 conjunct2 | assumption)+
qed

text \<open>
  C2. Whenever the \<open>code\<close> parameter is a string other than \<open>VALID123\<close> (no
  normalisation: \<open>valid123\<close> is such a string), the lookup answers \<open>{valid: false}\<close>,
  and the answer has no \<open>issuedAt\<close> property.
\<close>

theorem verify_rejects_other_codes:
  assumes "searchParams_get req ''code'' = Some code" and "code \<noteq> ''VALID123''"
  shows "verify_GET req = \<lparr>body = JsonBody (JObject [(''valid'', JBool False)]), status = 200, headers = []\<rparr>
         \<and> (\<exists>data. body (verify_GET req) = JsonBody data
                \<and> get_property data ''valid'' = Some (JBool False)
                \<and> get_property data ''issuedAt'' = None)"
  using assms by (simp add: verify_GET_def NextResponse_json_def)

theorem verify_rejects_other_codes_witness:
  "searchParams_get lowercase_request ''code'' = Some ''valid123'' \<and> ''valid123'' \<noteq> ''VALID123''
   \<and> verify_GET lowercase_request =
        \<lparr>body = JsonBody (JObject [(''valid'', JBool False)]), status = 200, headers = []\<rparr>"
proof -
  have h1: "searchParams_get lowercase_request ''code'' = Some ''valid123''"
    by (simp add: searchParams_get_def lowercase_request_def)
  have h2: "''valid123'' \<noteq> ''VALID123''" by simp
  from verify_rejects_other_codes [OF h1 h2] h1 h2 show ?thesis
    by (intro conjI) (erule conjunct1 | assumption)+
qed

text \<open>
  C9. A request with no \<open>code\<close> parameter at all reads \<open>null\<close> for the code and gets
  the ordinary \<open>{valid: false}\<close> answer with status 200, not an error response.
\<close>

theorem verify_missing_code_is_invalid:
  assumes "''code'' \<notin> fst ` set (searchParams req)"
  shows "searchParams_get req ''code'' = None
         \<and> verify_GET req = \<lparr>body = JsonBody (JObject [(''valid'', JBool False)]), status = 200, headers = []\<rparr>"
proof -
  from assms have "searchParams_get req ''code'' = None"
    by (simp add: searchParams_get_def map_of_eq_None_iff)
  then show ?thesis by (simp add: verify_GET_def NextResponse_json_def)
qed

theorem verify_missing_code_is_invalid_witness:
  "''code'' \<notin> fst ` set (searchParams no_code_request)
   \<and> verify_GET no_code_request =
        \<lparr>body = JsonBody (JObject [(''valid'', JBool False)]), status = 200, headers = []\<rparr>"
proof -
  have h: "''code'' \<notin> fst ` set (searchParams no_code_request)"
    by (simp add: no_code_request_def)
  from verify_missing_code_is_invalid [OF h] h show ?thesis
    by (intro conjI) (erule conjunct2 | assumption)+
qed

section \<open>Facts about the issuer and the uploader used below\<close>

lemma upload_POST_calls:
  "fst (upload_POST env randomUUID getSignedUrl) =
     [\<lparr>call_client = \<lparr>region = AWS_REGION env\<rparr>,
       call_command = \<lparr>Bucket = AWS_BUCKET_NAME env, Key = ''uploads/'' @ randomUUID,
                        ContentType = ''application/octet-stream''\<rparr>,
       call_options = \<lparr>expiresIn = 60\<rparr>\<rparr>]"
  by (simp add: upload_POST_def s3_def Let_def)

lemma upload_POST_result:
  "snd (upload_POST env randomUUID getSignedUrl) =
     (case getSignedUrl \<lparr>region = AWS_REGION env\<rparr>
             \<lparr>Bucket = AWS_BUCKET_NAME env, Key = ''uploads/'' @ randomUUID,
              ContentType = ''application/octet-stream''\<rparr> \<lparr>expiresIn = 60\<rparr> of
        Inl err \<Rightarrow> Inl err
      | Inr uploadUrl \<Rightarrow>
          Inr \<lparr>body = JsonBody (JObject [(''uploadUrl'', JString uploadUrl)]), status = 200, headers = []\<rparr>)"
  by (simp add: upload_POST_def s3_def Let_def NextResponse_json_def split: sum.splits)

lemma upload_try_reaches_put:
  assumes "fetch br issuer_request = Resolved res" and "ok res"
    and "res_json res = Inr data" and "data \<noteq> JNull"
  shows "requests (upload_try br f) = [issuer_request, put_request (get_property data ''uploadUrl'') f]"
  using assms
  by (simp add: upload_try_def destructure_uploadUrl_key_def Let_def split: fetch_result.splits)

lemma upload_try_requests:
  "requests (upload_try br f) = [issuer_request]
   \<or> (\<exists>uploadUrl. requests (upload_try br f) = [issuer_request, put_request uploadUrl f])"
  by (auto simp add: upload_try_def Let_def split: fetch_result.splits sum.splits prod.splits)

lemma handleUpload_requests:
  "requests (handleUpload br (Some f)) = requests (upload_try br f)"
  by (simp add: handleUpload_def Let_def split: option.splits)

lemma upload_try_completes:
  assumes "fetch br issuer_request = Resolved res" and "ok res"
    and "res_json res = Inr data" and "data \<noteq> JNull"
    and "fetch br (put_request (get_property data ''uploadUrl'') f) = Resolved uploadRes"
    and "ok uploadRes"
  shows "upload_try br f =
           \<lparr>statuses = [''Uploading to secure storage'' @ ellipsis,
                        ''Upload complete! Your file key is '' @ to_string (get_property data ''key'')],
            requests = [issuer_request, put_request (get_property data ''uploadUrl'') f],
            thrown = None\<rparr>"
  using assms
  by (simp add: upload_try_def destructure_uploadUrl_key_def Let_def)

section \<open>Properties of the upload-URL issuer\<close>

text \<open>
  C5. Every invocation of the issuer makes exactly one signing call, and that call asks
  for an expiry of 60 seconds: whatever the environment, the generated identifier and the
  signer are. The handler has no parameter through which a caller could change it.
\<close>

theorem upload_expiry_is_sixty_seconds:
  "map (expiresIn \<circ> call_options) (fst (upload_POST env randomUUID getSignedUrl)) = [60]"
  by (simp add: upload_POST_calls)

text \<open>
  C6. The key the issuer signs is \<open>uploads/\<close> followed by the generated identifier, so
  two invocations sign different keys exactly when their identifiers differ.
\<close>

theorem upload_keys_distinct_iff_uuids_distinct:
  "map (Key \<circ> call_command) (fst (upload_POST env randomUUID getSignedUrl)) = [''uploads/'' @ randomUUID]
   \<and> ((map (Key \<circ> call_command) (fst (upload_POST env randomUUID getSignedUrl))
        \<noteq> map (Key \<circ> call_command) (fst (upload_POST env' randomUUID' getSignedUrl')))
       = (randomUUID \<noteq> randomUUID'))"
  by (simp add: upload_POST_calls)

theorem upload_keys_distinct_iff_uuids_distinct_witness:
  "uuid_a \<noteq> uuid_b
   \<and> map (Key \<circ> call_command) (fst (upload_POST demo_env uuid_a demo_signer))
     \<noteq> map (Key \<circ> call_command) (fst (upload_POST other_env uuid_b failing_signer))"
proof -
  have h: "uuid_a \<noteq> uuid_b" by (simp add: uuid_a_def uuid_b_def)
  from upload_keys_distinct_iff_uuids_distinct
         [of demo_env uuid_a demo_signer other_env uuid_b failing_signer]
  have "(map (Key \<circ> call_command) (fst (upload_POST demo_env uuid_a demo_signer))
        \<noteq> map (Key \<circ> call_command) (fst (upload_POST other_env uuid_b failing_signer)))
       = (uuid_a \<noteq> uuid_b)"
    by (rule conjunct2)
  with h show ?thesis by (intro conjI) (erule iffD2 | assumption)+
qed

text \<open>
  C3. Whenever the issuer responds, its JSON body has a string property \<open>uploadUrl\<close> and
  no property \<open>key\<close>. The page's destructuring of that body therefore binds \<open>key\<close> to
  \<open>undefined\<close>, and an acknowledged upload ends with the status message
  \<open>Upload complete! Your file key is undefined\<close>.
\<close>

theorem upload_response_has_no_key:
  assumes "snd (upload_POST env randomUUID getSignedUrl) = Inr resp"
  shows "\<exists>data uploadUrl.
           body resp = JsonBody data
           \<and> get_property data ''uploadUrl'' = Some (JString uploadUrl)
           \<and> get_property data ''key'' = None
           \<and> (\<forall>br. destructure_uploadUrl_key br data = Inr (Some (JString uploadUrl), None))
           \<and> (\<forall>br f res uploadRes.
                 fetch br issuer_request = Resolved res \<and> ok res \<and> res_json res = Inr data
                 \<and> fetch br (put_request (Some (JString uploadUrl)) f) = Resolved uploadRes
                 \<and> ok uploadRes
                 \<longrightarrow> last (statuses (handleUpload br (Some f)))
                       = ''Upload complete! Your file key is undefined'')"
proof -
  from assms obtain uploadUrl where
    resp: "resp = \<lparr>body = JsonBody (JObject [(''uploadUrl'', JString uploadUrl)]), status = 200, headers = []\<rparr>"
    by (auto simp add: upload_POST_result split: sum.splits)
  let ?data = "JObject [(''uploadUrl'', JString uploadUrl)]"
  have url: "get_property ?data ''uploadUrl'' = Some (JString uploadUrl)" by simp
  have key: "get_property ?data ''key'' = None" by simp
  have d: "\<forall>br. destructure_uploadUrl_key br ?data = Inr (Some (JString uploadUrl), None)"
    by (simp add: destructure_uploadUrl_key_def)
  have e: "last (statuses (handleUpload br (Some f))) = ''Upload complete! Your file key is undefined''"
    if "fetch br issuer_request = Resolved res" "ok res" "res_json res = Inr ?data"
      "fetch br (put_request (Some (JString uploadUrl)) f) = Resolved uploadRes" "ok uploadRes"
    for br f res uploadRes
  proof -
    have "upload_try br f =
           \<lparr>statuses = [''Uploading to secure storage'' @ ellipsis,
                        ''Upload complete! Your file key is '' @ to_string (get_property ?data ''key'')],
            requests = [issuer_request, put_request (get_property ?data ''uploadUrl'') f],
            thrown = None\<rparr>"
      using that by (intro upload_try_completes [where res = res and uploadRes = uploadRes]) simp_all
    then show ?thesis by (simp add: handleUpload_def Let_def)
  qed
  from resp url key d e show ?thesis by (intro exI [of _ ?data] exI [of _ uploadUrl]) auto
qed

lemma demo_upload_POST:
  "snd (upload_POST demo_env uuid_a demo_signer) = Inr demo_upload_response"
  by (simp add: upload_POST_result demo_signer_def demo_env_def uuid_a_def demo_url_def
      demo_upload_response_def)

lemma demo_fetch_issuer:
  "fetch demo_browser issuer_request =
     Resolved \<lparr>ok = True, res_json = Inr (JObject [(''uploadUrl'', JString demo_url)])\<rparr>"
  by (simp add: demo_browser_def demo_upload_POST demo_upload_response_def)

lemma demo_fetch_put:
  "fetch demo_browser (put_request uploadUrl f) =
     Resolved \<lparr>ok = True, res_json = Inl (JsError ''Unexpected end of JSON input'')\<rparr>"
  by (simp add: demo_browser_def put_request_def issuer_request_def)

theorem upload_response_has_no_key_witness:
  "snd (upload_POST demo_env uuid_a demo_signer) = Inr demo_upload_response
   \<and> body demo_upload_response = JsonBody (JObject [(''uploadUrl'', JString demo_url)])
   \<and> last (statuses (handleUpload demo_browser (Some png_file)))
       = ''Upload complete! Your file key is undefined''"
proof -
  from upload_response_has_no_key [OF demo_upload_POST]
  obtain data uploadUrl where
    b: "body demo_upload_response = JsonBody data" and
    u: "get_property data ''uploadUrl'' = Some (JString uploadUrl)" and
    e: "\<And>br f res uploadRes.
          fetch br issuer_request = Resolved res \<and> ok res \<and> res_json res = Inr data
          \<and> fetch br (put_request (Some (JString uploadUrl)) f) = Resolved uploadRes \<and> ok uploadRes
          \<Longrightarrow> last (statuses (handleUpload br (Some f)))
                = ''Upload complete! Your file key is undefined''"
    by blast
  from b have data: "data = JObject [(''uploadUrl'', JString demo_url)]"
    by (simp add: demo_upload_response_def)
  with u have url: "uploadUrl = demo_url" by simp
  have "last (statuses (handleUpload demo_browser (Some png_file)))
          = ''Upload complete! Your file key is undefined''"
    by (rule e [where res = "\<lparr>ok = True, res_json = Inr (JObject [(''uploadUrl'', JString demo_url)])\<rparr>"
                  and uploadRes = "\<lparr>ok = True, res_json = Inl (JsError ''Unexpected end of JSON input'')\<rparr>"])
       (simp add: data url demo_fetch_issuer demo_fetch_put)
  with demo_upload_POST show ?thesis by (simp add: demo_upload_response_def)
qed

section \<open>Properties of the client-side uploader\<close>

text \<open>
  C8. Every PUT request that \<open>handleUpload\<close> sends for a selected file carries that
  file as its body and exactly one header, \<open>Content-Type\<close>, whose value is the file's
  declared type when that is not empty and \<open>application/octet-stream\<close> otherwise. The
  PUT is sent whenever the issuer request is answered with an ok response whose JSON
  body is not \<open>null\<close>.
\<close>

theorem put_content_type_is_file_type_or_fallback:
  "(\<forall>r \<in> set (requests (handleUpload br (Some f))).
      req_method r = ''PUT'' \<longrightarrow>
        req_body r = Some f \<and>
        req_headers r =
          [(''Content-Type'', if file_type f \<noteq> [] then file_type f else ''application/octet-stream'')])
   \<and> (\<forall>res data.
         fetch br issuer_request = Resolved res \<and> ok res \<and> res_json res = Inr data \<and> data \<noteq> JNull
         \<longrightarrow> (\<exists>r \<in> set (requests (handleUpload br (Some f))). req_method r = ''PUT''))"
proof -
  have a: "req_body r = Some f \<and>
        req_headers r =
          [(''Content-Type'', if file_type f \<noteq> [] then file_type f else ''application/octet-stream'')]"
    if r: "r \<in> set (requests (handleUpload br (Some f)))" and m: "req_method r = ''PUT''" for r
  proof -
    from upload_try_requests [of br f] r m obtain uploadUrl where "r = put_request uploadUrl f"
      by (auto simp add: handleUpload_requests issuer_request_def)
    then show ?thesis by (simp add: put_request_def put_content_type_def)
  qed
  have b: "\<exists>r \<in> set (requests (handleUpload br (Some f))). req_method r = ''PUT''"
    if "fetch br issuer_request = Resolved res \<and> ok res \<and> res_json res = Inr data \<and> data \<noteq> JNull"
    for res data
  proof -
    from that
    have "requests (upload_try br f) = [issuer_request, put_request (get_property data ''uploadUrl'') f]"
      by (intro upload_try_reaches_put [where res = res]) simp_all
    then show ?thesis by (simp add: handleUpload_requests put_request_def)
  qed
  from a b show ?thesis by blast
qed

theorem put_content_type_is_file_type_or_fallback_witness:
  "requests (handleUpload demo_browser (Some png_file))
     = [issuer_request,
        \<lparr>url = demo_url, req_method = ''PUT'', req_body = Some png_file,
         req_headers = [(''Content-Type'', ''image/png'')]\<rparr>]
   \<and> requests (handleUpload demo_browser (Some untyped_file))
     = [issuer_request,
        \<lparr>url = demo_url, req_method = ''PUT'', req_body = Some untyped_file,
         req_headers = [(''Content-Type'', ''application/octet-stream'')]\<rparr>]"
proof -
  have reqs: "requests (handleUpload demo_browser (Some f))
                = [issuer_request, put_request (Some (JString demo_url)) f]" for f
    using upload_try_reaches_put [OF demo_fetch_issuer, where f = f]
    by (simp add: handleUpload_requests)
  have hdr: "req_headers (put_request (Some (JString demo_url)) f) =
          [(''Content-Type'', if file_type f \<noteq> [] then file_type f else ''application/octet-stream'')]" for f
  proof -
    from put_content_type_is_file_type_or_fallback [of demo_browser f]
    have "\<forall>r \<in> set (requests (handleUpload demo_browser (Some f))).
      req_method r = ''PUT'' \<longrightarrow>
        req_body r = Some f \<and>
        req_headers r =
          [(''Content-Type'', if file_type f \<noteq> [] then file_type f else ''application/octet-stream'')]"
      by (rule conjunct1)
    moreover have "put_request (Some (JString demo_url)) f \<in> set (requests (handleUpload demo_browser (Some f)))"
      by (simp add: reqs)
    moreover have "req_method (put_request (Some (JString demo_url)) f) = ''PUT''"
      by (simp add: put_request_def)
    ultimately show ?thesis by blast
  qed
  have p: "put_request (Some (JString demo_url)) f =
        \<lparr>url = demo_url, req_method = ''PUT'', req_body = Some f,
         req_headers = req_headers (put_request (Some (JString demo_url)) f)\<rparr>" for f
    by (simp add: put_request_def)
  have "put_request (Some (JString demo_url)) png_file =
        \<lparr>url = demo_url, req_method = ''PUT'', req_body = Some png_file,
         req_headers = [(''Content-Type'', ''image/png'')]\<rparr>"
    by (subst p, subst hdr) (simp add: png_file_def)
  moreover have "put_request (Some (JString demo_url)) untyped_file =
        \<lparr>url = demo_url, req_method = ''PUT'', req_body = Some untyped_file,
         req_headers = [(''Content-Type'', ''application/octet-stream'')]\<rparr>"
    by (subst p, subst hdr) (simp add: untyped_file_def)
  ultimately show ?thesis by (simp add: reqs)
qed

text \<open>
  C10. The content type in the command the issuer signs is \<open>application/octet-stream\<close>
  on every invocation (the handler sees no file). For a file whose declared type is
  neither empty nor that constant, every PUT the page sends carries the file's own type,
  which differs from the signed one.
\<close>

theorem signed_content_type_is_constant:
  "map (ContentType \<circ> call_command) (fst (upload_POST env randomUUID getSignedUrl))
     = [''application/octet-stream'']
   \<and> (file_type f \<noteq> [] \<and> file_type f \<noteq> ''application/octet-stream'' \<longrightarrow>
        (\<forall>r \<in> set (requests (handleUpload br (Some f))).
           req_method r = ''PUT'' \<longrightarrow>
             map_of (req_headers r) ''Content-Type'' = Some (file_type f)
             \<and> (\<forall>c \<in> set (fst (upload_POST env randomUUID getSignedUrl)).
                   ContentType (call_command c) \<noteq> file_type f)))"
proof -
  have "map_of (req_headers r) ''Content-Type'' = Some (file_type f)
        \<and> (\<forall>c \<in> set (fst (upload_POST env randomUUID getSignedUrl)).
              ContentType (call_command c) \<noteq> file_type f)"
    if t: "file_type f \<noteq> []" "file_type f \<noteq> ''application/octet-stream''"
      and r: "r \<in> set (requests (handleUpload br (Some f)))" and m: "req_method r = ''PUT''" for r
  proof -
    from upload_try_requests [of br f] r m obtain uploadUrl where "r = put_request uploadUrl f"
      by (auto simp add: handleUpload_requests issuer_request_def)
    with t show ?thesis
      by (auto simp add: put_request_def put_content_type_def upload_POST_calls)
  qed
  moreover have "map (ContentType \<circ> call_command) (fst (upload_POST env randomUUID getSignedUrl))
     = [''application/octet-stream'']"
    by (simp add: upload_POST_calls)
  ultimately show ?thesis by blast
qed

theorem signed_content_type_is_constant_witness:
  "file_type png_file \<noteq> [] \<and> file_type png_file \<noteq> ''application/octet-stream''
   \<and> map (ContentType \<circ> call_command) (fst (upload_POST demo_env uuid_a demo_signer))
       = [''application/octet-stream'']
   \<and> requests (handleUpload demo_browser (Some png_file))
       = [issuer_request, put_request (Some (JString demo_url)) png_file]
   \<and> req_method (put_request (Some (JString demo_url)) png_file) = ''PUT''
   \<and> map_of (req_headers (put_request (Some (JString demo_url)) png_file)) ''Content-Type''
       = Some ''image/png''"
proof -
  have t: "file_type png_file \<noteq> [] \<and> file_type png_file \<noteq> ''application/octet-stream''"
    by (simp add: png_file_def)
  have reqs: "requests (handleUpload demo_browser (Some png_file))
                = [issuer_request, put_request (Some (JString demo_url)) png_file]"
    using upload_try_reaches_put [OF demo_fetch_issuer, where f = png_file]
    by (simp add: handleUpload_requests)
  have m: "req_method (put_request (Some (JString demo_url)) png_file) = ''PUT''"
    by (simp add: put_request_def)
  note inst = signed_content_type_is_constant
               [of demo_env uuid_a demo_signer png_file demo_browser]
  from inst have c: "map (ContentType \<circ> call_command) (fst (upload_POST demo_env uuid_a demo_signer))
       = [''application/octet-stream'']"
    by (rule conjunct1)
  from inst t have "\<forall>r \<in> set (requests (handleUpload demo_browser (Some png_file))).
           req_method r = ''PUT'' \<longrightarrow>
             map_of (req_headers r) ''Content-Type'' = Some (file_type png_file)
             \<and> (\<forall>c \<in> set (fst (upload_POST demo_env uuid_a demo_signer)).
                   ContentType (call_command c) \<noteq> file_type png_file)"
    by blast
  with reqs m
  have "map_of (req_headers (put_request (Some (JString demo_url)) png_file)) ''Content-Type''
          = Some (file_type png_file)"
    by simp
  then have h: "map_of (req_headers (put_request (Some (JString demo_url)) png_file)) ''Content-Type''
          = Some ''image/png''"
    by (simp add: png_file_def)
  from t c reqs m h show ?thesis by blast
qed

section \<open>Properties of the report generator\<close>

text \<open>The body text splits into five lines, two of them empty.\<close>

lemma report_lines:
  "split report_body backslash_n =
     [''This sample report illustrates the format of your certificate.'',
      [],
      ''Your authentic autograph will be thoroughly analyzed by our team of experts using forensic techniques. The report includes details about ink consistency, paper age, provenance, and comparative signature analysis.'',
      [],
      ''Each report is digitally signed and assigned a unique verification code. Third parties can confirm authenticity using our verification page.'']"
  by code_simp

lemma toy_report_try: "report_try toy_pdf_lib = Inr toy_pdf_bytes"
  by (simp add: report_try_def report_lines toy_pdf_lib_def toy_pdf_bytes_def)


lemma and_then_Inr_iff:
  "and_then m f = Inr b \<longleftrightarrow> (\<exists>a. m = Inr a \<and> f a = Inr b)"
  by (cases m) simp_all

lemma and_then_Inl_iff:
  "and_then m f = Inl e \<longleftrightarrow> m = Inl e \<or> (\<exists>a. m = Inr a \<and> f a = Inl e)"
  by (cases m) auto

lemma draw_lines_fails_at_first_error:
  assumes "drawText lib doc page line
             \<lparr>x = Lit 50, y = y0, size = fontSize, font = fnt,
              maxWidth = Some (Sub width (Lit 100)),
              lineHeight = Some (Mul fontSize (Lit (14 / 10)))\<rparr> = Inl e"
  shows "draw_lines lib page fnt width (line # rest) (y0, doc) = Inl e"
  using assms by simp

lemma report_try_succeeds_iff:
  "report_try lib = Inr pdfBytes \<longleftrightarrow>
     (\<exists>doc0 page doc1 width height fnt doc2 titleWidth doc3 y_end doc4.
        PDFDocument_create lib = Inr doc0
        \<and> addPage lib doc0 (Lit 612, Lit 792) = Inr (page, doc1)
        \<and> getSize lib doc1 page = Inr (width, height)
        \<and> embedFont lib doc1 Helvetica = Inr (fnt, doc2)
        \<and> widthOfTextAtSize lib doc2 fnt title titleSize = Inr titleWidth
        \<and> drawText lib doc2 page title
             \<lparr>x = Div (Sub width titleWidth) (Lit 2), y = Sub height (Lit 80),
              size = titleSize, font = fnt, maxWidth = None, lineHeight = None\<rparr> = Inr doc3
        \<and> draw_lines lib page fnt width (split report_body backslash_n)
             (Sub height (Lit 130), doc3) = Inr (y_end, doc4)
        \<and> save lib doc4 = Inr pdfBytes)"
  by (simp add: report_try_def and_then_Inr_iff split_paired_Ex cong: conj_cong)

lemma report_try_create_fails:
  "PDFDocument_create lib = Inl e \<Longrightarrow> report_try lib = Inl e"
  by (simp add: report_try_def)



lemma dated_report_try:
  "report_try (dated_pdf_lib now) = Inr [0x25, 0x50, 0x44, 0x46, 6, of_nat now]"
  by (simp add: report_try_def report_lines dated_pdf_lib_def toy_pdf_lib_def)

text \<open>
  C4, as amended. The handler takes no request input, and the body of a successful
  response is exactly the bytes that the library's \<open>save\<close> returned, sent with status 200
  and \<open>Content-Type\<close> exactly \<open>application/pdf\<close>. Two successful invocations therefore
  return equal bodies exactly when the library returned equal bytes to them; the handler
  itself fixes nothing in the document that a library may take from its surroundings
  (such as the dates it stamps).
\<close>

theorem report_body_is_saved_bytes:
  assumes "report_try lib = Inr pdfBytes" and "report_try lib' = Inr pdfBytes'"
  shows "body (snd (report_GET lib)) = BinaryBody pdfBytes
         \<and> (\<exists>doc. save lib doc = Inr pdfBytes)
         \<and> status (snd (report_GET lib)) = 200
         \<and> map_of (headers (snd (report_GET lib))) ''Content-Type'' = Some ''application/pdf''
         \<and> ((body (snd (report_GET lib)) = body (snd (report_GET lib'))) = (pdfBytes = pdfBytes'))"
proof -
  from assms(1) have "\<exists>doc. save lib doc = Inr pdfBytes"
    unfolding report_try_succeeds_iff by blast
  with assms show ?thesis
    by (simp add: report_GET_def pdf_response_def)
qed

theorem report_body_is_saved_bytes_witness:
  "report_try toy_pdf_lib = Inr toy_pdf_bytes
   \<and> report_try (dated_pdf_lib 7) = Inr [0x25, 0x50, 0x44, 0x46, 6, 7]
   \<and> body (snd (report_GET toy_pdf_lib)) = BinaryBody toy_pdf_bytes
   \<and> map_of (headers (snd (report_GET toy_pdf_lib))) ''Content-Type'' = Some ''application/pdf''
   \<and> (body (snd (report_GET toy_pdf_lib)) = body (snd (report_GET (dated_pdf_lib 7))))
       = (toy_pdf_bytes = [0x25, 0x50, 0x44, 0x46, 6, 7])"
proof -
  have h: "report_try (dated_pdf_lib 7) = Inr [0x25, 0x50, 0x44, 0x46, 6, 7]"
    using dated_report_try [of 7] by simp
  from report_body_is_saved_bytes [OF toy_report_try h] toy_report_try h
  show ?thesis by blast
qed

text \<open>
  The claim as stated fails: both invocations below succeed, and their bodies differ,
  the library having run at different clock seconds.
\<close>

theorem report_bodies_differ_counterexample:
  "report_try (dated_pdf_lib 0) = Inr [0x25, 0x50, 0x44, 0x46, 6, 0]
   \<and> report_try (dated_pdf_lib 1) = Inr [0x25, 0x50, 0x44, 0x46, 6, 1]
   \<and> body (snd (report_GET (dated_pdf_lib 0))) \<noteq> body (snd (report_GET (dated_pdf_lib 1)))"
proof -
  have a: "report_try (dated_pdf_lib 0) = Inr [0x25, 0x50, 0x44, 0x46, 6, 0]"
    using dated_report_try [of 0] by simp
  have b: "report_try (dated_pdf_lib 1) = Inr [0x25, 0x50, 0x44, 0x46, 6, 1]"
    using dated_report_try [of 1] by simp
  from a b show ?thesis by (simp add: report_GET_def pdf_response_def)
qed

end
